theory Spec2Isabelle
  imports Main "HOL-Library.Sublist" "HOL-Library.Char_ord" "HOL-Library.List_Lexorder"
begin

section \<open>The PDK layer model of \<^verbatim>\<open>pin_pdk_info.py\<close>\<close>

subsection \<open>Data model\<close>

text \<open>
  \<^verbatim>\<open>LayerUniqueName = str\<close> and \<^verbatim>\<open>LayerGroupUniqueName = str\<close>: both are plain strings
  compared by equality.
\<close>

type_synonym LayerUniqueName = string
type_synonym LayerGroupUniqueName = string

text \<open>
  The three dataclasses. The fields \<^verbatim>\<open>related_layers\<close>, \<^verbatim>\<open>pin_layers\<close> and
  \<^verbatim>\<open>label_layers\<close> of \<^verbatim>\<open>PinLayerInfo\<close> are annotated with the name type in the
  source, but every value the program builds or loads for them is a list of group names
  (see \<^verbatim>\<open>dump_example_pdk_info\<close>), and \<^verbatim>\<open>pin_layer_info\<close> concatenates them with
  \<^verbatim>\<open>+\<close> and hands the result to a parameter of type \<^verbatim>\<open>List[LayerGroupUniqueName]\<close>.
  They are lists here.
\<close>

record NamedLayerGroup =
  name :: LayerGroupUniqueName
  layers :: "LayerUniqueName list"

record PinLayerInfo =
  short_layer_name :: string
  related_layers :: "LayerGroupUniqueName list"
  pin_layers :: "LayerGroupUniqueName list"
  label_layers :: "LayerGroupUniqueName list"

record PinPDKInfo =
  tech_name :: string
  layer_group_definitions :: "NamedLayerGroup list"
  pin_layer_infos :: "PinLayerInfo list"

subsection \<open>Queries on one table\<close>

text \<open>
  \<^verbatim>\<open>return [g for g in self.layer_group_definitions if g.name in names]\<close>

  The comprehension walks the stored groups in order; \<^verbatim>\<open>in\<close> on a list is membership
  by equality.
\<close>

definition layer_groups :: "PinPDKInfo \<Rightarrow> LayerGroupUniqueName list \<Rightarrow> NamedLayerGroup list" where
  "layer_groups self names = [g. g \<leftarrow> layer_group_definitions self, name g \<in> set names]"

text \<open>
  \<^verbatim>\<open>list(set(xs))\<close>: the elements of \<^verbatim>\<open>xs\<close>, each once. Python does not fix the order
  in which a set of strings is iterated (string hashes are salted per process), so the
  order of the returned list carries no information; the model keeps one occurrence of
  each element, and every statement below about the result is made on its \<^const>\<open>set\<close>
  and on \<^const>\<open>distinct\<close> only.
\<close>

definition list_of_set :: "'a list \<Rightarrow> 'a list" where
  "list_of_set xs = remdups xs"

text \<open>
  \<^verbatim>\<open>layer_groups = self.layer_groups(names)\<close>

  \<^verbatim>\<open>return list(set([l for g in layer_groups for l in g.layers]))\<close>
\<close>

definition layers_of_groups :: "PinPDKInfo \<Rightarrow> LayerGroupUniqueName list \<Rightarrow> LayerUniqueName list" where
  "layers_of_groups self names =
     (let groups = layer_groups self names
      in list_of_set [l. g \<leftarrow> groups, l \<leftarrow> layers g])"

text \<open>
  The loop of \<^verbatim>\<open>pin_layer_info\<close> over the remaining entries. Each entry is first
  compared by its short name and then, in the same iteration, by its group expansion;
  only then does the loop move on. Falling off the end of the loop is Python's implicit
  \<^verbatim>\<open>return None\<close>.
\<close>

fun pin_layer_info_loop :: "PinPDKInfo \<Rightarrow> LayerUniqueName \<Rightarrow> PinLayerInfo list \<Rightarrow> PinLayerInfo option" where
  "pin_layer_info_loop self related_layer [] = None"
| "pin_layer_info_loop self related_layer (pli # rest) =
     (if related_layer = short_layer_name pli then Some pli
      else let related = layers_of_groups self (related_layers pli @ pin_layers pli @ label_layers pli)
           in if related_layer \<in> set related then Some pli
              else pin_layer_info_loop self related_layer rest)"

definition pin_layer_info :: "PinPDKInfo \<Rightarrow> LayerUniqueName \<Rightarrow> PinLayerInfo option" where
  "pin_layer_info self related_layer = pin_layer_info_loop self related_layer (pin_layer_infos self)"

subsection \<open>The registry of tables\<close>

text \<open>
  A \<^verbatim>\<open>pathlib.Path\<close> is kept by its components (\<^verbatim>\<open>Path.parts\<close>). Paths are ordered
  by comparing these component sequences lexicographically, each component as a string,
  character by character; this is the order \<^verbatim>\<open>sorted\<close> uses on them, and it is the order
  \<open><\<close> has on \<open>string list\<close> here.
\<close>

type_synonym Path = "string list"

record PinPDKInfoFactory =
  pdk_infos_by_tech_name :: "string \<rightharpoonup> PinPDKInfo"

text \<open>
  The body of the loop \<^verbatim>\<open>for f in json_files\<close> in \<^verbatim>\<open>__init__\<close>. The parameter
  \<open>try_read\<close> is the outcome of the two statements under \<^verbatim>\<open>try\<close> for a file:
  \<open>Inr pdk_info\<close> when they complete with a table, \<open>Inl e\<close> when an exception \<open>e\<close> is
  raised. In the second case the handler prints one line naming the file and the
  exception, and the loop goes on; the printed lines are the second component of the
  state.
\<close>

fun load_json_files ::
  "(Path \<Rightarrow> 'e + PinPDKInfo) \<Rightarrow> Path list \<Rightarrow> PinPDKInfoFactory \<times> (Path \<times> 'e) list
     \<Rightarrow> PinPDKInfoFactory \<times> (Path \<times> 'e) list" where
  "load_json_files try_read [] (self, printed) = (self, printed)"
| "load_json_files try_read (f # json_files) (self, printed) =
     (case try_read f of
        Inr pdk_info \<Rightarrow>
          load_json_files try_read json_files
            (self\<lparr>pdk_infos_by_tech_name :=
                    (pdk_infos_by_tech_name self)(tech_name pdk_info \<mapsto> pdk_info)\<rparr>,
             printed)
      | Inl e \<Rightarrow>
          load_json_files try_read json_files (self, printed @ [(f, e)]))"

text \<open>
  \<^verbatim>\<open>json_files = sorted({f for p in search_path for f in p.glob('*.json')})\<close>

  The parameter \<open>glob\<close> lists the files that \<^verbatim>\<open>p.glob('*.json')\<close> yields for a
  directory. The set comprehension removes repeated paths and \<^verbatim>\<open>sorted\<close> puts them in
  ascending order.
\<close>

definition json_files_of :: "(Path \<Rightarrow> Path list) \<Rightarrow> Path list \<Rightarrow> Path list" where
  "json_files_of glob search_path =
     sorted_list_of_set (set [f. p \<leftarrow> search_path, f \<leftarrow> glob p])"

text \<open>\<^verbatim>\<open>PinPDKInfoFactory.__init__\<close>: the new registry and the lines printed while loading.\<close>

definition PinPDKInfoFactory_init ::
  "(Path \<Rightarrow> 'e + PinPDKInfo) \<Rightarrow> (Path \<Rightarrow> Path list) \<Rightarrow> Path list
     \<Rightarrow> PinPDKInfoFactory \<times> (Path \<times> 'e) list" where
  "PinPDKInfoFactory_init try_read glob search_path =
     load_json_files try_read (json_files_of glob search_path)
       (\<lparr>pdk_infos_by_tech_name = Map.empty\<rparr>, [])"

text \<open>
  \<^verbatim>\<open>return self._pdk_infos_by_tech_name.get(tech_name, None)\<close>

  The method has no assignment and \<^verbatim>\<open>dict.get\<close> does not modify the dictionary, so its
  only effect is the value it returns.
\<close>

definition pdk_info :: "PinPDKInfoFactory \<Rightarrow> string \<Rightarrow> PinPDKInfo option" where
  "pdk_info self tech =
     (case pdk_infos_by_tech_name self tech of Some v \<Rightarrow> Some v | None \<Rightarrow> None)"

subsection \<open>The file format\<close>

text \<open>
  The values \<^verbatim>\<open>json.load\<close> returns and \<^verbatim>\<open>json.dump\<close> accepts. An object keeps its
  members in order, as a Python \<^verbatim>\<open>dict\<close> does; numbers with a fraction are not modelled,
  no table contains one.
\<close>

datatype json =
    JNull
  | JBool bool
  | JInt int
  | JString string
  | JArray "json list"
  | JObject "(string \<times> json) list"

text \<open>
  \<^verbatim>\<open>dataclasses.asdict\<close> on the three dataclasses: a dataclass becomes a dictionary of
  its fields in declaration order, a list becomes the list of its converted elements, a
  string stays as it is.
\<close>

definition asdict_NamedLayerGroup :: "NamedLayerGroup \<Rightarrow> json" where
  "asdict_NamedLayerGroup g =
     JObject [(''name'', JString (name g)),
              (''layers'', JArray (map JString (layers g)))]"

definition asdict_PinLayerInfo :: "PinLayerInfo \<Rightarrow> json" where
  "asdict_PinLayerInfo pli =
     JObject [(''short_layer_name'', JString (short_layer_name pli)),
              (''related_layers'', JArray (map JString (related_layers pli))),
              (''pin_layers'', JArray (map JString (pin_layers pli))),
              (''label_layers'', JArray (map JString (label_layers pli)))]"

definition asdict :: "PinPDKInfo \<Rightarrow> json" where
  "asdict self =
     JObject [(''tech_name'', JString (tech_name self)),
              (''layer_group_definitions'',
                 JArray (map asdict_NamedLayerGroup (layer_group_definitions self))),
              (''pin_layer_infos'',
                 JArray (map asdict_PinLayerInfo (pin_layer_infos self)))]"

text \<open>
  What a file holds: text that is not JSON, or the JSON value its text encodes.
  \<^verbatim>\<open>json.dump\<close> writes a text that \<^verbatim>\<open>json.load\<close> reads back as the same value; the
  text itself (indentation, escapes) is not modelled.
\<close>

datatype file_content = NotJson | JsonText json

text \<open>
  What writing to a path does on this file system. \<^verbatim>\<open>open(path, 'w')\<close> can raise
  (no such directory, no permission, the path is a directory), and then nothing is
  written. Once the file is open it has been truncated, and \<^verbatim>\<open>json.dump\<close> or the closing
  of the file can still raise (a full disk); what is left is a proper prefix of the text
  of a JSON object, which is not JSON. Otherwise the whole text is written.
\<close>

datatype write_outcome = OpenFails | WriteFails | Completes

text \<open>
  The file system: the files it holds, what a write to each path would do, and whether
  \<^verbatim>\<open>open(path)\<close> is allowed to read the file at a path. A path with no file cannot be
  opened for reading either.
\<close>

record filesystem =
  files :: "Path \<rightharpoonup> file_content"
  on_write :: "Path \<Rightarrow> write_outcome"
  can_read :: "Path \<Rightarrow> bool"

datatype file_error = OSError | JSONDecodeError | MalformedTableFile

text \<open>
  \<^verbatim>\<open>with open(path, 'w', encoding='utf-8') as f: json.dump(asdict(self), f, indent=4)\<close>

  The result is \<open>Inr ()\<close> when the method returns and \<open>Inl e\<close> when it raises \<open>e\<close>,
  together with the file system it leaves behind.
\<close>

definition write_json ::
  "PinPDKInfo \<Rightarrow> Path \<Rightarrow> filesystem \<Rightarrow> (file_error + unit) \<times> filesystem" where
  "write_json self path fs =
     (case on_write fs path of
        OpenFails \<Rightarrow> (Inl OSError, fs)
      | WriteFails \<Rightarrow> (Inl OSError, fs\<lparr>files := (files fs)(path \<mapsto> NotJson)\<rparr>)
      | Completes \<Rightarrow>
          (Inr (), fs\<lparr>files := (files fs)(path \<mapsto> JsonText (asdict self))\<rparr>))"

text \<open>
  Modelled from the spec: \<^verbatim>\<open>dataclass_from_dict\<close> of the package
  \<^verbatim>\<open>klayout_plugin_utils\<close>, which is not among the sources. The specification describes it
  as reflective field matching of the loaded JSON against the dataclasses, on a file whose
  top-level fields are \<^verbatim>\<open>tech_name\<close> (string), \<^verbatim>\<open>layer_group_definitions\<close> (ordered list
  of \<^verbatim>\<open>{name, layers: [string...]}\<close>) and \<^verbatim>\<open>pin_layer_infos\<close> (ordered list of
  \<^verbatim>\<open>{short_layer_name, related_layers, pin_layers, label_layers}\<close>, the last three lists
  of strings); a malformed structure, a missing field or a wrong type is a parse failure.
  Each field of the dataclass is looked up by its name; members the dataclass has no
  field for are not looked at.
\<close>

fun json_str :: "json \<Rightarrow> string option" where
  "json_str (JString s) = Some s"
| "json_str _ = None"

fun json_list :: "(json \<Rightarrow> 'a option) \<Rightarrow> json \<Rightarrow> 'a list option" where
  "json_list conv (JArray js) = those (map conv js)"
| "json_list conv _ = None"

fun json_field :: "json \<Rightarrow> string \<Rightarrow> json option" where
  "json_field (JObject members) key = map_of members key"
| "json_field _ key = None"

definition NamedLayerGroup_from_dict :: "json \<Rightarrow> NamedLayerGroup option" where
  "NamedLayerGroup_from_dict data =
     Option.bind (Option.bind (json_field data ''name'') json_str) (\<lambda>n.
     Option.bind (Option.bind (json_field data ''layers'') (json_list json_str)) (\<lambda>ls.
     Some \<lparr>name = n, layers = ls\<rparr>))"

definition PinLayerInfo_from_dict :: "json \<Rightarrow> PinLayerInfo option" where
  "PinLayerInfo_from_dict data =
     Option.bind (Option.bind (json_field data ''short_layer_name'') json_str) (\<lambda>s.
     Option.bind (Option.bind (json_field data ''related_layers'') (json_list json_str)) (\<lambda>r.
     Option.bind (Option.bind (json_field data ''pin_layers'') (json_list json_str)) (\<lambda>p.
     Option.bind (Option.bind (json_field data ''label_layers'') (json_list json_str)) (\<lambda>l.
     Some \<lparr>short_layer_name = s, related_layers = r, pin_layers = p, label_layers = l\<rparr>))))"

definition dataclass_from_dict :: "json \<Rightarrow> file_error + PinPDKInfo" where
  "dataclass_from_dict data =
     (case
        Option.bind (Option.bind (json_field data ''tech_name'') json_str) (\<lambda>t.
        Option.bind (Option.bind (json_field data ''layer_group_definitions'')
                       (json_list NamedLayerGroup_from_dict)) (\<lambda>gs.
        Option.bind (Option.bind (json_field data ''pin_layer_infos'')
                       (json_list PinLayerInfo_from_dict)) (\<lambda>ps.
        Some \<lparr>tech_name = t, layer_group_definitions = gs, pin_layer_infos = ps\<rparr>)))
      of None \<Rightarrow> Inl MalformedTableFile
       | Some obj \<Rightarrow> Inr obj)"

text \<open>
  \<^verbatim>\<open>with open(path) as f: data = json.load(f); return dataclass_from_dict(cls, data)\<close>
\<close>

definition read_json :: "filesystem \<Rightarrow> Path \<Rightarrow> file_error + PinPDKInfo" where
  "read_json fs path =
     (if \<not> can_read fs path then Inl OSError
      else case files fs path of
             None \<Rightarrow> Inl OSError
           | Some NotJson \<Rightarrow> Inl JSONDecodeError
           | Some (JsonText data) \<Rightarrow> dataclass_from_dict data)"

subsection \<open>An example table\<close>

text \<open>
  The entries for \<^verbatim>\<open>Metal1\<close> and \<^verbatim>\<open>Metal2\<close> of the table that
  \<^verbatim>\<open>dump_example_pdk_info\<close> builds, used to instantiate the theorems below.
\<close>

definition Metal1_info :: PinLayerInfo where
  "Metal1_info =
     \<lparr>short_layer_name = ''Metal1'',
      related_layers = [''Metal1.RelatedLayers''],
      pin_layers = [''Metal1.PinLayers''],
      label_layers = [''Metal1.LabelLayers'']\<rparr>"

definition Metal2_info :: PinLayerInfo where
  "Metal2_info =
     \<lparr>short_layer_name = ''Metal2'',
      related_layers = [''Metal2.RelatedLayers''],
      pin_layers = [''Metal2.PinLayers''],
      label_layers = [''Metal2.LabelLayers'']\<rparr>"

definition example_pdk_info :: PinPDKInfo where
  "example_pdk_info =
     \<lparr>tech_name = ''sg13g2'',
      layer_group_definitions =
        [\<lparr>name = ''Metal1.PinLayers'', layers = [''Metal1.pin'']\<rparr>,
         \<lparr>name = ''Metal1.LabelLayers'', layers = [''Metal1.text'']\<rparr>,
         \<lparr>name = ''Metal1.RelatedLayers'',
          layers = [''Metal1.drawing'', ''Metal1.pin'', ''Metal1.text'', ''Metal1.label'',
                    ''Metal1.diffprb'']\<rparr>,
         \<lparr>name = ''Metal2.PinLayers'', layers = [''Metal2.pin'']\<rparr>,
         \<lparr>name = ''Metal2.LabelLayers'', layers = [''Metal2.text'']\<rparr>,
         \<lparr>name = ''Metal2.RelatedLayers'',
          layers = [''Metal2.drawing'', ''Metal2.pin'', ''Metal2.text'', ''Metal2.label'']\<rparr>],
      pin_layer_infos = [Metal1_info, Metal2_info]\<rparr>"

text \<open>
  A second table for the same technology, three directories with their \<^verbatim>\<open>*.json\<close>
  files, and the outcome of reading each file: two files hold tables, every other file
  fails to parse.
\<close>

definition example_variant :: PinPDKInfo where
  "example_variant = example_pdk_info\<lparr>pin_layer_infos := [Metal1_info]\<rparr>"

definition example_glob :: "Path \<Rightarrow> Path list" where
  "example_glob p =
     (if p = [''pdks'']
      then [[''pdks'', ''sg13g2_b.json''], [''pdks'', ''broken.json''], [''pdks'', ''sg13g2_a.json'']]
      else if p = [''single'']
      then [[''single'', ''sg13g2_a.json''], [''single'', ''broken.json'']]
      else if p = [''none'']
      then [[''none'', ''broken.json'']]
      else [])"

definition example_read :: "Path \<Rightarrow> string + PinPDKInfo" where
  "example_read f =
     (if f = [''pdks'', ''sg13g2_a.json''] \<or> f = [''single'', ''sg13g2_a.json'']
      then Inr example_pdk_info
      else if f = [''pdks'', ''sg13g2_b.json'']
      then Inr example_variant
      else Inl ''Expecting value'')"

text \<open>
  A file system with no files in which \<^verbatim>\<open>ihp-sg13g2.json\<close>, the file that
  \<^verbatim>\<open>dump_example_pdk_info\<close> writes, can be written and read, and nothing can be
  written under the directory \<^verbatim>\<open>missing\<close>.
\<close>

definition example_filesystem :: filesystem where
  "example_filesystem =
     \<lparr>files = Map.empty,
      on_write = (\<lambda>p. if p = [''ihp-sg13g2.json''] then Completes else OpenFails),
      can_read = (\<lambda>p. True)\<rparr>"

section \<open>Properties of the queries on one table\<close>

lemmas example_defs =
  example_pdk_info_def Metal1_info_def Metal2_info_def
  layers_of_groups_def layer_groups_def list_of_set_def

lemma layer_groups_filter:
  "layer_groups self names = filter (\<lambda>g. name g \<in> set names) (layer_group_definitions self)"
proof -
  have "[g. g \<leftarrow> gs, name g \<in> set names] = filter (\<lambda>g. name g \<in> set names) gs"
    for gs :: "NamedLayerGroup list"
    by (induction gs) simp_all
  then show ?thesis
    by (simp add: layer_groups_def)
qed

lemma layer_groups_cong_set:
  "set names = set names' \<Longrightarrow> layer_groups self names = layer_groups self names'"
  by (simp add: layer_groups_filter)

lemma layer_groups_unmatched:
  "\<forall>g \<in> set (layer_group_definitions self). name g \<notin> set names
   \<Longrightarrow> layer_groups self names = []"
  by (simp add: layer_groups_filter)

lemma set_layers_of_groups:
  "set (layers_of_groups self names) = (\<Union>g \<in> set (layer_groups self names). set (layers g))"
  by (simp add: layers_of_groups_def list_of_set_def)

lemma distinct_layers_of_groups: "distinct (layers_of_groups self names)"
  by (simp add: layers_of_groups_def list_of_set_def)

lemma layers_of_groups_no_groups:
  "layer_groups self names = [] \<Longrightarrow> layers_of_groups self names = []"
  by (simp add: layers_of_groups_def list_of_set_def)

lemma pin_layer_info_loop_None:
  "\<forall>p \<in> set ps. L \<noteq> short_layer_name p
        \<and> L \<notin> set (layers_of_groups T (related_layers p @ pin_layers p @ label_layers p))
   \<Longrightarrow> pin_layer_info_loop T L ps = None"
  by (induction ps) simp_all

lemma pin_layer_info_loop_skip:
  "\<forall>q \<in> set pre. L \<noteq> short_layer_name q
        \<and> L \<notin> set (layers_of_groups T (related_layers q @ pin_layers q @ label_layers q))
   \<Longrightarrow> pin_layer_info_loop T L (pre @ rest) = pin_layer_info_loop T L rest"
  by (induction pre) simp_all

text \<open>
  C1, as the code has it. \<^verbatim>\<open>pin_layer_info\<close> makes one pass over the entries and tries
  both rules on an entry before it looks at the next one. So for an entry \<open>p\<close> of the
  table, \<open>pin_layer_info T (short_layer_name p)\<close> returns \<open>p\<close> whenever no entry stored
  before \<open>p\<close> matches that name, neither by its own short name nor by its group
  expansion.
\<close>

theorem pin_layer_info_first_match:
  "pin_layer_infos T = pre @ p # post
   \<Longrightarrow> \<forall>q \<in> set pre. short_layer_name p \<noteq> short_layer_name q
        \<and> short_layer_name p
            \<notin> set (layers_of_groups T (related_layers q @ pin_layers q @ label_layers q))
   \<Longrightarrow> pin_layer_info T (short_layer_name p) = Some p"
  unfolding pin_layer_info_def by (simp add: pin_layer_info_loop_skip)

theorem pin_layer_info_first_match_witness:
  "pin_layer_infos example_pdk_info = [Metal1_info] @ Metal2_info # []
   \<and> short_layer_name Metal2_info \<noteq> short_layer_name Metal1_info
   \<and> short_layer_name Metal2_info
        \<notin> set (layers_of_groups example_pdk_info
                 (related_layers Metal1_info @ pin_layers Metal1_info @ label_layers Metal1_info))
   \<and> pin_layer_info example_pdk_info (short_layer_name Metal2_info) = Some Metal2_info"
proof -
  have h1: "pin_layer_infos example_pdk_info = [Metal1_info] @ Metal2_info # []"
    by (simp add: example_pdk_info_def)
  have h2: "\<forall>q \<in> set [Metal1_info]. short_layer_name Metal2_info \<noteq> short_layer_name q
        \<and> short_layer_name Metal2_info
            \<notin> set (layers_of_groups example_pdk_info
                     (related_layers q @ pin_layers q @ label_layers q))"
    by (simp add: example_defs)
  from pin_layer_info_first_match [OF h1 h2] h1 h2 show ?thesis by simp
qed

text \<open>
  C1 as stated fails: in the table below the entry \<^verbatim>\<open>B\<close> is stored after the entry
  \<^verbatim>\<open>A\<close>, whose related group \<^verbatim>\<open>G\<close> contains a layer named \<^verbatim>\<open>B\<close>. The loop reaches
  \<^verbatim>\<open>A\<close> first, its short name differs, its group expansion contains \<^verbatim>\<open>B\<close>, and
  \<^verbatim>\<open>A\<close> is returned before the short name of \<^verbatim>\<open>B\<close> is ever compared.
\<close>

theorem pin_layer_info_short_name_shadowed:
  "\<lparr>short_layer_name = ''B'', related_layers = [], pin_layers = [], label_layers = []\<rparr>
     \<in> set (pin_layer_infos
         \<lparr>tech_name = ''t'',
          layer_group_definitions = [\<lparr>name = ''G'', layers = [''B'']\<rparr>],
          pin_layer_infos =
            [\<lparr>short_layer_name = ''A'', related_layers = [''G''], pin_layers = [],
              label_layers = []\<rparr>,
             \<lparr>short_layer_name = ''B'', related_layers = [], pin_layers = [],
              label_layers = []\<rparr>]\<rparr>)
   \<and> pin_layer_info
         \<lparr>tech_name = ''t'',
          layer_group_definitions = [\<lparr>name = ''G'', layers = [''B'']\<rparr>],
          pin_layer_infos =
            [\<lparr>short_layer_name = ''A'', related_layers = [''G''], pin_layers = [],
              label_layers = []\<rparr>,
             \<lparr>short_layer_name = ''B'', related_layers = [], pin_layers = [],
              label_layers = []\<rparr>]\<rparr>
         ''B''
       = Some \<lparr>short_layer_name = ''A'', related_layers = [''G''], pin_layers = [],
               label_layers = []\<rparr>
   \<and> pin_layer_info
         \<lparr>tech_name = ''t'',
          layer_group_definitions = [\<lparr>name = ''G'', layers = [''B'']\<rparr>],
          pin_layer_infos =
            [\<lparr>short_layer_name = ''A'', related_layers = [''G''], pin_layers = [],
              label_layers = []\<rparr>,
             \<lparr>short_layer_name = ''B'', related_layers = [], pin_layers = [],
              label_layers = []\<rparr>]\<rparr>
         ''B''
       \<noteq> Some \<lparr>short_layer_name = ''B'', related_layers = [], pin_layers = [],
               label_layers = []\<rparr>"
  by (simp add: pin_layer_info_def layers_of_groups_def layer_groups_def list_of_set_def)

text \<open>
  C2: a layer name that is the short name of no entry and lies in the group expansion
  \<open>layers_of_groups T (related_layers p @ pin_layers p @ label_layers p)\<close> of no entry
  \<open>p\<close> is resolved to \<open>None\<close>; the function returns, it does not raise.
\<close>

theorem pin_layer_info_unknown_layer:
  "\<forall>p \<in> set (pin_layer_infos T). L \<noteq> short_layer_name p
        \<and> L \<notin> set (layers_of_groups T (related_layers p @ pin_layers p @ label_layers p))
   \<Longrightarrow> pin_layer_info T L = None"
  unfolding pin_layer_info_def by (rule pin_layer_info_loop_None)

theorem pin_layer_info_unknown_layer_witness:
  "pin_layer_infos example_pdk_info = [Metal1_info, Metal2_info]
   \<and> ''Via1.drawing'' \<noteq> short_layer_name Metal1_info
   \<and> ''Via1.drawing''
        \<notin> set (layers_of_groups example_pdk_info
                 (related_layers Metal1_info @ pin_layers Metal1_info @ label_layers Metal1_info))
   \<and> ''Via1.drawing'' \<noteq> short_layer_name Metal2_info
   \<and> ''Via1.drawing''
        \<notin> set (layers_of_groups example_pdk_info
                 (related_layers Metal2_info @ pin_layers Metal2_info @ label_layers Metal2_info))
   \<and> pin_layer_info example_pdk_info ''Via1.drawing'' = None"
proof -
  have l: "pin_layer_infos example_pdk_info = [Metal1_info, Metal2_info]"
    by (simp add: example_pdk_info_def)
  have h: "\<forall>p \<in> set (pin_layer_infos example_pdk_info). ''Via1.drawing'' \<noteq> short_layer_name p
        \<and> ''Via1.drawing''
            \<notin> set (layers_of_groups example_pdk_info
                     (related_layers p @ pin_layers p @ label_layers p))"
    by (simp add: example_defs)
  from pin_layer_info_unknown_layer [OF h] h l show ?thesis by simp
qed

text \<open>
  C3: \<open>layer_groups T S\<close> is the stored list of groups with exactly the groups whose name
  occurs in \<open>S\<close> kept, in stored order (it is a subsequence of the stored list). Names
  that belong to no group change nothing: adding such names \<open>U\<close> to \<open>S\<close> gives the same
  result. The function only reads the table.
\<close>

theorem layer_groups_exact:
  "layer_groups T S = filter (\<lambda>g. name g \<in> set S) (layer_group_definitions T)
   \<and> subseq (layer_groups T S) (layer_group_definitions T)
   \<and> ((\<forall>n \<in> set U. \<forall>g \<in> set (layer_group_definitions T). name g \<noteq> n)
        \<longrightarrow> layer_groups T (S @ U) = layer_groups T S)"
proof (intro conjI impI)
  show "layer_groups T S = filter (\<lambda>g. name g \<in> set S) (layer_group_definitions T)"
    by (rule layer_groups_filter)
  show "subseq (layer_groups T S) (layer_group_definitions T)"
    by (simp add: layer_groups_filter)
next
  assume un: "\<forall>n \<in> set U. \<forall>g \<in> set (layer_group_definitions T). name g \<noteq> n"
  have "filter (\<lambda>g. name g \<in> set (S @ U)) (layer_group_definitions T)
        = filter (\<lambda>g. name g \<in> set S) (layer_group_definitions T)"
    by (rule filter_cong) (use un in auto)
  then show "layer_groups T (S @ U) = layer_groups T S"
    by (simp only: layer_groups_filter)
qed

theorem layer_groups_exact_witness:
  "''Via1.PinLayers'' \<notin> name ` set (layer_group_definitions example_pdk_info)
   \<and> layer_groups example_pdk_info
        ([''Metal2.PinLayers'', ''Metal1.PinLayers''] @ [''Via1.PinLayers''])
       = [\<lparr>name = ''Metal1.PinLayers'', layers = [''Metal1.pin'']\<rparr>,
          \<lparr>name = ''Metal2.PinLayers'', layers = [''Metal2.pin'']\<rparr>]"
proof -
  have h: "\<forall>n \<in> set [''Via1.PinLayers''].
      \<forall>g \<in> set (layer_group_definitions example_pdk_info). name g \<noteq> n"
    by (simp add: example_pdk_info_def)
  have v: "layer_groups example_pdk_info [''Metal2.PinLayers'', ''Metal1.PinLayers'']
           = [\<lparr>name = ''Metal1.PinLayers'', layers = [''Metal1.pin'']\<rparr>,
              \<lparr>name = ''Metal2.PinLayers'', layers = [''Metal2.pin'']\<rparr>]"
    by (simp add: example_pdk_info_def layer_groups_def)
  from layer_groups_exact [of example_pdk_info "[''Metal2.PinLayers'', ''Metal1.PinLayers'']"
                              "[''Via1.PinLayers'']"] h v
  have "layer_groups example_pdk_info
        ([''Metal2.PinLayers'', ''Metal1.PinLayers''] @ [''Via1.PinLayers''])
       = [\<lparr>name = ''Metal1.PinLayers'', layers = [''Metal1.pin'']\<rparr>,
          \<lparr>name = ''Metal2.PinLayers'', layers = [''Metal2.pin'']\<rparr>]"
    by simp
  moreover have "''Via1.PinLayers'' \<notin> name ` set (layer_group_definitions example_pdk_info)"
    by (simp add: example_pdk_info_def)
  ultimately show ?thesis by blast
qed

text \<open>
  C4: the elements of \<open>layers_of_groups T S\<close> are exactly the layers of the groups that
  \<open>layer_groups T S\<close> returns, no layer is listed twice, and the result is the empty
  list when \<open>S\<close> is empty or names no group of the table.
\<close>

theorem layers_of_groups_union:
  "set (layers_of_groups T S) = (\<Union>g \<in> set (layer_groups T S). set (layers g))
   \<and> distinct (layers_of_groups T S)
   \<and> ((S = [] \<or> (\<forall>g \<in> set (layer_group_definitions T). name g \<notin> set S))
        \<longrightarrow> layers_of_groups T S = [])"
proof (intro conjI impI)
  show "set (layers_of_groups T S) = (\<Union>g \<in> set (layer_groups T S). set (layers g))"
    by (rule set_layers_of_groups)
  show "distinct (layers_of_groups T S)"
    by (rule distinct_layers_of_groups)
next
  assume "S = [] \<or> (\<forall>g \<in> set (layer_group_definitions T). name g \<notin> set S)"
  then have "layer_groups T S = []"
    by (auto simp: layer_groups_filter)
  then show "layers_of_groups T S = []"
    by (rule layers_of_groups_no_groups)
qed

theorem layers_of_groups_union_witness:
  "''Via1.PinLayers'' \<notin> name ` set (layer_group_definitions example_pdk_info)
   \<and> layers_of_groups example_pdk_info [''Via1.PinLayers''] = []
   \<and> layers_of_groups example_pdk_info [] = []"
proof -
  have n: "''Via1.PinLayers'' \<notin> name ` set (layer_group_definitions example_pdk_info)"
    by (simp add: example_pdk_info_def)
  have h: "\<forall>g \<in> set (layer_group_definitions example_pdk_info).
             name g \<notin> set [''Via1.PinLayers'']"
    by (simp add: example_pdk_info_def)
  from layers_of_groups_union [of example_pdk_info "[''Via1.PinLayers'']"]
       layers_of_groups_union [of example_pdk_info "[]"] h n
  show ?thesis by blast
qed

text \<open>
  C5: every layer in \<open>layers_of_groups T S\<close> is a layer of some group declared in the
  table, and the result is empty when no name in \<open>S\<close> is the name of a group of the table.
\<close>

theorem layers_of_groups_subset:
  "(\<forall>l \<in> set (layers_of_groups T S).
      \<exists>g \<in> set (layer_group_definitions T). l \<in> set (layers g))
   \<and> ((\<forall>n \<in> set S. \<forall>g \<in> set (layer_group_definitions T). name g \<noteq> n)
        \<longrightarrow> layers_of_groups T S = [])"
proof (intro conjI impI ballI)
  fix l assume "l \<in> set (layers_of_groups T S)"
  then obtain g where "g \<in> set (layer_groups T S)" "l \<in> set (layers g)"
    by (auto simp: set_layers_of_groups)
  then show "\<exists>g \<in> set (layer_group_definitions T). l \<in> set (layers g)"
    by (auto simp: layer_groups_filter)
next
  assume "\<forall>n \<in> set S. \<forall>g \<in> set (layer_group_definitions T). name g \<noteq> n"
  then have "\<forall>g \<in> set (layer_group_definitions T). name g \<notin> set S"
    by blast
  then have "layer_groups T S = []"
    by (rule layer_groups_unmatched)
  then show "layers_of_groups T S = []"
    by (rule layers_of_groups_no_groups)
qed

theorem layers_of_groups_subset_witness:
  "''Via1.PinLayers'' \<notin> name ` set (layer_group_definitions example_pdk_info)
   \<and> ''Via1.LabelLayers'' \<notin> name ` set (layer_group_definitions example_pdk_info)
   \<and> layers_of_groups example_pdk_info [''Via1.PinLayers'', ''Via1.LabelLayers''] = []
   \<and> set (layers_of_groups example_pdk_info [''Metal1.PinLayers'']) = {''Metal1.pin''}
   \<and> (\<exists>g \<in> set (layer_group_definitions example_pdk_info). ''Metal1.pin'' \<in> set (layers g))"
proof -
  have n: "''Via1.PinLayers'' \<notin> name ` set (layer_group_definitions example_pdk_info)"
    "''Via1.LabelLayers'' \<notin> name ` set (layer_group_definitions example_pdk_info)"
    by (simp_all add: example_pdk_info_def)
  have h: "\<forall>n \<in> set [''Via1.PinLayers'', ''Via1.LabelLayers''].
      \<forall>g \<in> set (layer_group_definitions example_pdk_info). name g \<noteq> n"
    by (simp add: example_pdk_info_def)
  have v: "set (layers_of_groups example_pdk_info [''Metal1.PinLayers'']) = {''Metal1.pin''}"
    by (simp add: example_defs)
  from layers_of_groups_subset [of example_pdk_info "[''Via1.PinLayers'', ''Via1.LabelLayers'']"]
       layers_of_groups_subset [of example_pdk_info "[''Metal1.PinLayers'']"] h v n
  show ?thesis by blast
qed

text \<open>
  C10: \<open>layers_of_groups T\<close> depends on its list of names only through the set of names
  in it: two lists with the same names, in any order and with any repetitions, give the
  same set of layers. In particular the concatenation
  \<open>related_layers p @ pin_layers p @ label_layers p\<close> that \<^verbatim>\<open>pin_layer_info\<close> passes gives
  the same layers as any list \<open>S\<close> of the names in the union of the three collections.
\<close>

theorem layers_of_groups_names_set:
  "(set S1 = set S2 \<longrightarrow> set (layers_of_groups T S1) = set (layers_of_groups T S2))
   \<and> (set S = set (related_layers p) \<union> set (pin_layers p) \<union> set (label_layers p)
        \<longrightarrow> set (layers_of_groups T (related_layers p @ pin_layers p @ label_layers p))
            = set (layers_of_groups T S))"
proof (intro conjI impI)
  assume "set S1 = set S2"
  then show "set (layers_of_groups T S1) = set (layers_of_groups T S2)"
    by (simp add: set_layers_of_groups layer_groups_cong_set [of S1 S2])
next
  assume "set S = set (related_layers p) \<union> set (pin_layers p) \<union> set (label_layers p)"
  then have "set (related_layers p @ pin_layers p @ label_layers p) = set S"
    by auto
  then show "set (layers_of_groups T (related_layers p @ pin_layers p @ label_layers p))
            = set (layers_of_groups T S)"
    by (simp only: set_layers_of_groups
          layer_groups_cong_set [of "related_layers p @ pin_layers p @ label_layers p" S])
qed

theorem layers_of_groups_names_set_witness:
  "set [''Metal1.PinLayers'', ''Metal1.LabelLayers'', ''Metal1.PinLayers'']
     = set [''Metal1.LabelLayers'', ''Metal1.PinLayers'']
   \<and> set (layers_of_groups example_pdk_info
            [''Metal1.PinLayers'', ''Metal1.LabelLayers'', ''Metal1.PinLayers''])
     = set (layers_of_groups example_pdk_info [''Metal1.LabelLayers'', ''Metal1.PinLayers''])
   \<and> set [''Metal1.LabelLayers'', ''Metal1.PinLayers'', ''Metal1.RelatedLayers'']
     = set (related_layers Metal1_info) \<union> set (pin_layers Metal1_info)
       \<union> set (label_layers Metal1_info)
   \<and> set (layers_of_groups example_pdk_info
            (related_layers Metal1_info @ pin_layers Metal1_info @ label_layers Metal1_info))
     = set (layers_of_groups example_pdk_info
            [''Metal1.LabelLayers'', ''Metal1.PinLayers'', ''Metal1.RelatedLayers''])"
proof -
  have h1: "set [''Metal1.PinLayers'', ''Metal1.LabelLayers'', ''Metal1.PinLayers'']
     = set [''Metal1.LabelLayers'', ''Metal1.PinLayers'']"
    by auto
  have h2: "set [''Metal1.LabelLayers'', ''Metal1.PinLayers'', ''Metal1.RelatedLayers'']
     = set (related_layers Metal1_info) \<union> set (pin_layers Metal1_info)
       \<union> set (label_layers Metal1_info)"
    by (auto simp: Metal1_info_def)
  from layers_of_groups_names_set
         [of "[''Metal1.PinLayers'', ''Metal1.LabelLayers'', ''Metal1.PinLayers'']"
             "[''Metal1.LabelLayers'', ''Metal1.PinLayers'']" example_pdk_info
             "[''Metal1.LabelLayers'', ''Metal1.PinLayers'', ''Metal1.RelatedLayers'']"
             Metal1_info]
       h1 h2
  show ?thesis by blast
qed

section \<open>Properties of the registry\<close>

lemma load_json_files_append:
  "load_json_files rd (fs @ gs) st = load_json_files rd gs (load_json_files rd fs st)"
proof (induction fs arbitrary: st)
  case Nil
  show ?case by (cases st) simp
next
  case (Cons f fs)
  show ?case by (cases st) (simp add: Cons.IH split: sum.splits)
qed

lemma load_json_files_other_tech:
  "\<forall>f \<in> set fs. \<forall>t. rd f = Inr t \<longrightarrow> tech_name t \<noteq> x
   \<Longrightarrow> pdk_infos_by_tech_name (fst (load_json_files rd fs (self, printed))) x
       = pdk_infos_by_tech_name self x"
  by (induction fs arbitrary: self printed) (auto split: sum.splits)



lemma load_json_files_printed_files:
  "fst ` set (snd (load_json_files rd fs (self, printed)))
   \<subseteq> fst ` set printed \<union> {f. \<exists>e. rd f = Inl e}"
proof (induction fs arbitrary: self printed)
  case Nil
  show ?case by simp
next
  case (Cons f fs)
  show ?case
  proof (cases "rd f")
    case (Inl e)
    with Cons.IH [of self "printed @ [(f, e)]"] show ?thesis by auto
  next
    case (Inr t)
    with Cons.IH show ?thesis by simp
  qed
qed

lemma set_json_files_of:
  "set (json_files_of glob search_path) = (\<Union>p \<in> set search_path. set (glob p))"
  by (simp add: json_files_of_def)

lemma json_files_of_sorted_distinct:
  "sorted (json_files_of glob search_path) \<and> distinct (json_files_of glob search_path)"
  by (simp add: json_files_of_def)

lemma sorted_distinct_split:
  fixes f :: "'a::linorder"
  assumes "sorted xs" "distinct xs" "f \<in> set xs"
  obtains pre post where "xs = pre @ f # post" "\<forall>g \<in> set pre. g < f" "\<forall>g \<in> set post. f < g"
proof -
  from assms(3) obtain pre post where xs: "xs = pre @ f # post"
    by (auto simp: in_set_conv_decomp)
  from assms(1,2) xs have "\<forall>g \<in> set pre. g < f" "\<forall>g \<in> set post. f < g"
    by (auto simp: sorted_append less_le)
  with xs show thesis by (rule that)
qed

text \<open>
  C7: two discovered files \<open>f1 < f2\<close> both parse to a table declaring the technology
  \<open>x\<close>, and no discovered file after \<open>f2\<close> declares \<open>x\<close>. Loading raises nothing and
  prints no diagnostic for either file, and looking \<open>x\<close> up in the resulting registry
  gives the table of \<open>f2\<close>, the later path: the files are processed in ascending path
  order and each table replaces the entry stored under its technology name.
\<close>

theorem factory_later_file_wins:
  assumes "f1 \<in> set (json_files_of glob search_path)"
    and "f2 \<in> set (json_files_of glob search_path)"
    and "f1 < f2"
    and "rd f1 = Inr t1" and "rd f2 = Inr t2"
    and "tech_name t1 = x" and "tech_name t2 = x"
    and "\<forall>f \<in> set (json_files_of glob search_path). f2 < f \<longrightarrow> (\<forall>t. rd f = Inr t \<longrightarrow> tech_name t \<noteq> x)"
  shows "pdk_info (fst (PinPDKInfoFactory_init rd glob search_path)) x = Some t2
         \<and> f1 \<notin> fst ` set (snd (PinPDKInfoFactory_init rd glob search_path))
         \<and> f2 \<notin> fst ` set (snd (PinPDKInfoFactory_init rd glob search_path))"
proof -
  let ?fs = "json_files_of glob search_path"
  let ?init = "(\<lparr>pdk_infos_by_tech_name = Map.empty\<rparr>, [] :: (Path \<times> 'a) list)"
  from json_files_of_sorted_distinct [of glob search_path] assms(2)
  obtain pre post where fs: "?fs = pre @ f2 # post" and post: "\<forall>g \<in> set post. f2 < g"
    by (auto elim: sorted_distinct_split)
  have later: "\<forall>f \<in> set post. \<forall>t. rd f = Inr t \<longrightarrow> tech_name t \<noteq> x"
    using assms(8) post fs by auto
  obtain s pr where st: "load_json_files rd pre ?init = (s, pr)"
    by (cases "load_json_files rd pre ?init")
  have "pdk_infos_by_tech_name (fst (load_json_files rd ?fs ?init)) x = Some t2"
    using assms(5,7) by (simp add: fs load_json_files_append st load_json_files_other_tech [OF later])
  then have look: "pdk_info (fst (PinPDKInfoFactory_init rd glob search_path)) x = Some t2"
    by (simp add: pdk_info_def PinPDKInfoFactory_init_def)
  have pr: "fst ` set (snd (PinPDKInfoFactory_init rd glob search_path))
            \<subseteq> {f. \<exists>e. rd f = Inl e}"
    unfolding PinPDKInfoFactory_init_def
    using load_json_files_printed_files
            [of rd "json_files_of glob search_path" "\<lparr>pdk_infos_by_tech_name = Map.empty\<rparr>" "[]"]
    by simp
  from look pr assms(4,5) show ?thesis by auto
qed


text \<open>
  C8: \<open>pdk_info R techName\<close> is the table stored under \<open>techName\<close> when there is one and
  \<open>None\<close> when \<open>techName\<close> is not a key of the registry. It is a function of the registry
  and the name alone, so it raises nothing and changes nothing.
\<close>

theorem pdk_info_lookup:
  "(\<forall>t. pdk_infos_by_tech_name R techName = Some t \<longrightarrow> pdk_info R techName = Some t)
   \<and> (techName \<notin> dom (pdk_infos_by_tech_name R) \<longrightarrow> pdk_info R techName = None)"
  by (auto simp: pdk_info_def split: option.splits)

text \<open>
  The order is by components, not by the joined path text: the file under \<^verbatim>\<open>d\<close> sorts
  before the file under \<^verbatim>\<open>d.x\<close>, although \<^verbatim>\<open>d.x/a.json\<close> precedes \<^verbatim>\<open>d/z.json\<close> as text.
\<close>

lemma path_order_by_components:
  "([''d'', ''z.json''] :: Path) < [''d.x'', ''a.json'']"
  "\<not> ''d/z.json'' < ''d.x/a.json''"
  by simp_all

lemma example_json_files:
  "json_files_of example_glob [[''pdks''], [''pdks'']]
     = [[''pdks'', ''broken.json''], [''pdks'', ''sg13g2_a.json''], [''pdks'', ''sg13g2_b.json'']]"
  "json_files_of example_glob [[''single'']]
     = [[''single'', ''broken.json''], [''single'', ''sg13g2_a.json'']]"
  "json_files_of example_glob [[''none'']] = [[''none'', ''broken.json'']]"
  unfolding json_files_of_def sorted_list_of_set_sort_remdups
  by (simp_all add: example_glob_def)

theorem factory_later_file_wins_witness:
  "[''pdks'', ''sg13g2_a.json''] < [''pdks'', ''sg13g2_b.json'']
   \<and> example_read [''pdks'', ''sg13g2_a.json''] = Inr example_pdk_info
   \<and> example_read [''pdks'', ''sg13g2_b.json''] = Inr example_variant
   \<and> tech_name example_pdk_info = tech_name example_variant
   \<and> example_pdk_info \<noteq> example_variant
   \<and> pdk_info (fst (PinPDKInfoFactory_init example_read example_glob [[''pdks''], [''pdks'']]))
        ''sg13g2''
       = Some example_variant"
proof -
  let ?fs = "json_files_of example_glob [[''pdks''], [''pdks'']]"
  have m1: "[''pdks'', ''sg13g2_a.json''] \<in> set ?fs"
    and m2: "[''pdks'', ''sg13g2_b.json''] \<in> set ?fs"
    by (simp_all add: example_json_files)
  have lt: "[''pdks'', ''sg13g2_a.json''] < [''pdks'', ''sg13g2_b.json'']"
    by simp
  have r1: "example_read [''pdks'', ''sg13g2_a.json''] = Inr example_pdk_info"
    and r2: "example_read [''pdks'', ''sg13g2_b.json''] = Inr example_variant"
    by (simp_all add: example_read_def)
  have t1: "tech_name example_pdk_info = ''sg13g2''"
    and t2: "tech_name example_variant = ''sg13g2''"
    by (simp_all add: example_variant_def example_pdk_info_def)
  have later: "\<forall>f \<in> set ?fs. [''pdks'', ''sg13g2_b.json''] < f
                 \<longrightarrow> (\<forall>t. example_read f = Inr t \<longrightarrow> tech_name t \<noteq> ''sg13g2'')"
    by (simp add: example_json_files)
  have ne: "example_pdk_info \<noteq> example_variant"
    by (simp add: example_variant_def example_pdk_info_def)
  from factory_later_file_wins [OF m1 m2 lt r1 r2 t1 t2 later] lt r1 r2 t1 t2 ne
  show ?thesis by simp
qed


theorem pdk_info_lookup_witness:
  "pdk_infos_by_tech_name \<lparr>pdk_infos_by_tech_name = [''sg13g2'' \<mapsto> example_pdk_info]\<rparr> ''sg13g2''
     = Some example_pdk_info
   \<and> pdk_info \<lparr>pdk_infos_by_tech_name = [''sg13g2'' \<mapsto> example_pdk_info]\<rparr> ''sg13g2''
     = Some example_pdk_info
   \<and> ''gf180mcu'' \<notin> dom (pdk_infos_by_tech_name
                            \<lparr>pdk_infos_by_tech_name = [''sg13g2'' \<mapsto> example_pdk_info]\<rparr>)
   \<and> pdk_info \<lparr>pdk_infos_by_tech_name = [''sg13g2'' \<mapsto> example_pdk_info]\<rparr> ''gf180mcu'' = None"
proof -
  let ?R = "\<lparr>pdk_infos_by_tech_name = [''sg13g2'' \<mapsto> example_pdk_info]\<rparr>"
  have h1: "pdk_infos_by_tech_name ?R ''sg13g2'' = Some example_pdk_info"
    by simp
  have h2: "''gf180mcu'' \<notin> dom (pdk_infos_by_tech_name ?R)"
    by simp
  from pdk_info_lookup [of ?R "''sg13g2''"] pdk_info_lookup [of ?R "''gf180mcu''"] h1 h2
  show ?thesis by blast
qed

section \<open>Round trip through the file format\<close>

lemma json_list_strings: "json_list json_str (JArray (map JString xs)) = Some xs"
  by (induction xs) simp_all

lemma NamedLayerGroup_roundtrip:
  "NamedLayerGroup_from_dict (asdict_NamedLayerGroup g) = Some g"
  by (simp add: NamedLayerGroup_from_dict_def asdict_NamedLayerGroup_def json_list_strings
        del: json_list.simps)

lemma PinLayerInfo_roundtrip:
  "PinLayerInfo_from_dict (asdict_PinLayerInfo pli) = Some pli"
  by (simp add: PinLayerInfo_from_dict_def asdict_PinLayerInfo_def json_list_strings
        del: json_list.simps)

lemma json_list_roundtrip:
  assumes "\<And>x. conv (enc x) = Some x"
  shows "json_list conv (JArray (map enc xs)) = Some xs"
  using assms by (induction xs) simp_all

lemma dataclass_from_dict_asdict: "dataclass_from_dict (asdict T) = Inr T"
  by (simp add: dataclass_from_dict_def asdict_def
        json_list_roundtrip [of NamedLayerGroup_from_dict asdict_NamedLayerGroup, OF NamedLayerGroup_roundtrip]
        json_list_roundtrip [of PinLayerInfo_from_dict asdict_PinLayerInfo, OF PinLayerInfo_roundtrip]
        del: json_list.simps)

text \<open>
  A write that raises leaves no table behind: either the file system is as it was, or
  the file at the path is not JSON and reading it fails.
\<close>

lemma write_json_raises:
  "write_json T path fs = (Inl e, fs')
   \<Longrightarrow> e = OSError \<and> (fs' = fs \<or> read_json fs' path = Inl JSONDecodeError
                        \<or> read_json fs' path = Inl OSError)"
  by (auto simp: write_json_def read_json_def split: write_outcome.splits)

lemma write_json_other_files:
  "write_json T path fs = (r, fs') \<Longrightarrow> p \<noteq> path \<Longrightarrow> files fs' p = files fs p"
  by (auto simp: write_json_def split: write_outcome.splits)

text \<open>
  C9: when \<open>write_json\<close> returns, having written the table \<open>T\<close> to the file at \<open>path\<close>,
  and that file can be opened for reading, \<open>read_json\<close> on it gives the table back: the
  same \<open>tech_name\<close>, the same groups and the same pin layer entries, field by field and
  in the same order.
\<close>

theorem read_json_write_json:
  "write_json T path fs = (Inr (), fs') \<Longrightarrow> can_read fs' path
   \<Longrightarrow> read_json fs' path = Inr T"
  by (auto simp: read_json_def write_json_def dataclass_from_dict_asdict
           split: write_outcome.splits)

theorem read_json_write_json_witness:
  "write_json example_pdk_info [''ihp-sg13g2.json''] example_filesystem
     = (Inr (),
        example_filesystem
          \<lparr>files := [[''ihp-sg13g2.json''] \<mapsto> JsonText (asdict example_pdk_info)]\<rparr>)
   \<and> can_read
        (example_filesystem
          \<lparr>files := [[''ihp-sg13g2.json''] \<mapsto> JsonText (asdict example_pdk_info)]\<rparr>)
        [''ihp-sg13g2.json'']
   \<and> read_json
        (example_filesystem
          \<lparr>files := [[''ihp-sg13g2.json''] \<mapsto> JsonText (asdict example_pdk_info)]\<rparr>)
        [''ihp-sg13g2.json'']
       = Inr example_pdk_info
   \<and> write_json example_pdk_info [''missing'', ''ihp-sg13g2.json''] example_filesystem
     = (Inl OSError, example_filesystem)"
proof -
  let ?fs = "example_filesystem
          \<lparr>files := [[''ihp-sg13g2.json''] \<mapsto> JsonText (asdict example_pdk_info)]\<rparr>"
  have w: "write_json example_pdk_info [''ihp-sg13g2.json''] example_filesystem = (Inr (), ?fs)"
    by (simp add: write_json_def example_filesystem_def)
  have r: "can_read ?fs [''ihp-sg13g2.json'']"
    by (simp add: example_filesystem_def)
  have f: "write_json example_pdk_info [''missing'', ''ihp-sg13g2.json''] example_filesystem
     = (Inl OSError, example_filesystem)"
    by (simp add: write_json_def example_filesystem_def)
  from read_json_write_json [OF w r] w r f show ?thesis by simp
qed

end
